theory Spec2Isabelle
  imports Complex_Main "HOL-Library.Word"
begin

section \<open>The RoomMesh codec of \<^verbatim>\<open>roommesh.py\<close>\<close>

text \<open>
  The module reads and writes a binary scene description. A file opened for reading is
  modelled by the list of bytes that are still unread; every read helper returns the value
  read together with the rest of the stream, or the exception it raises. A file opened for
  writing accepts every byte it is given, so a write helper returns the bytes it emits, or
  the exception raised while converting its argument (the \<^verbatim>\<open>OSError\<close> branch
  of the write helpers, taken when the sink reports a short write, is not reachable under
  this assumption; the \<^verbatim>\<open>context\<close> argument of the write helpers only
  occurs in that message and is left out).
\<close>

subsection \<open>Bytes, errors and numbers\<close>

type_synonym byte = "8 word"

text \<open>
  A float held by the data model is carried as the IEEE-754 single-precision bit pattern
  that \<^verbatim>\<open>struct.pack('<f', v)\<close> emits for it and from which
  \<^verbatim>\<open>struct.unpack('<f', b)\<close> builds it. Every float the parser produces
  has this form.
\<close>

type_synonym f32 = "32 word"

datatype error =
    EOFError string
  | ValueError string
  | TypeError
  | UnicodeDecodeError
  | UnicodeEncodeError
  | StructError
  | OverflowError

definition le32_value :: "byte \<Rightarrow> byte \<Rightarrow> byte \<Rightarrow> byte \<Rightarrow> nat" where
  "le32_value b0 b1 b2 b3 = unat b0 + 256 * unat b1 + 65536 * unat b2 + 16777216 * unat b3"

definition le32 :: "nat \<Rightarrow> byte list" where
  "le32 n = [word_of_nat (n mod 256), word_of_nat (n div 256 mod 256),
             word_of_nat (n div 65536 mod 256), word_of_nat (n div 16777216 mod 256)]"

definition byte_of_char :: "char \<Rightarrow> byte" where
  "byte_of_char c = word_of_nat (of_char c)"

definition char_of_byte :: "byte \<Rightarrow> char" where
  "char_of_byte b = char_of (unat b)"

definition is_ascii_byte :: "byte \<Rightarrow> bool" where
  "is_ascii_byte b \<longleftrightarrow> unat b < 128"

definition is_ascii_char :: "char \<Rightarrow> bool" where
  "is_ascii_char c \<longleftrightarrow> (of_char c :: nat) < 128"

definition eof_message :: "string \<Rightarrow> string" where
  "eof_message context = ''Unexpected end-of-file while reading '' @ context @ ''.''"

subsection \<open>Read helpers\<close>

type_synonym 'a reader = "error + ('a \<times> byte list)"

definition read_byte :: "byte list \<Rightarrow> string \<Rightarrow> int reader" where
  "read_byte file context =
     (case file of
        b # rest \<Rightarrow> Inr (int (unat b), rest)
      | [] \<Rightarrow> Inl (EOFError (eof_message context)))"

definition read_integer :: "byte list \<Rightarrow> string \<Rightarrow> int reader" where
  "read_integer file context =
     (case file of
        b0 # b1 # b2 # b3 # rest \<Rightarrow> Inr (int (le32_value b0 b1 b2 b3), rest)
      | _ \<Rightarrow> Inl (EOFError (eof_message context)))"

definition read_float :: "byte list \<Rightarrow> string \<Rightarrow> f32 reader" where
  "read_float file context =
     (case file of
        b0 # b1 # b2 # b3 # rest \<Rightarrow> Inr (word_of_nat (le32_value b0 b1 b2 b3), rest)
      | _ \<Rightarrow> Inl (EOFError (eof_message context)))"

definition read_string :: "byte list \<Rightarrow> string \<Rightarrow> string reader" where
  "read_string file context =
     (case read_integer file context of
        Inl e \<Rightarrow> Inl e
      | Inr (string_length, rest) \<Rightarrow>
          if length rest < nat string_length then Inl (EOFError (eof_message context))
          else if list_all is_ascii_byte (take (nat string_length) rest)
          then Inr (map char_of_byte (take (nat string_length) rest),
                    drop (nat string_length) rest)
          else Inl UnicodeDecodeError)"

text \<open>Sequencing of reads: the first exception ends the method.\<close>

definition and_then :: "'a reader \<Rightarrow> ('a \<Rightarrow> byte list \<Rightarrow> 'b reader) \<Rightarrow> 'b reader" where
  "and_then r f = (case r of Inl e \<Rightarrow> Inl e | Inr (x, rest) \<Rightarrow> f x rest)"

subsection \<open>Write helpers\<close>

type_synonym writer = "error + byte list"

definition write_byte :: "int \<Rightarrow> writer" where
  "write_byte v = (if 0 \<le> v \<and> v \<le> 255 then Inr [word_of_int v] else Inl StructError)"

definition write_integer :: "int \<Rightarrow> writer" where
  "write_integer v =
     (if 0 \<le> v \<and> v < 4294967296 then Inr (le32 (nat v)) else Inl OverflowError)"

definition write_float :: "f32 \<Rightarrow> writer" where
  "write_float v = Inr (le32 (unat v))"

text \<open>Sequencing of writes: the bytes are emitted in order until the first exception.\<close>

definition w_then :: "writer \<Rightarrow> writer \<Rightarrow> writer" where
  "w_then a b =
     (case a of
        Inl e \<Rightarrow> Inl e
      | Inr x \<Rightarrow> (case b of Inl e \<Rightarrow> Inl e | Inr y \<Rightarrow> Inr (x @ y)))"

fun w_seq :: "writer list \<Rightarrow> writer" where
  "w_seq [] = Inr []"
| "w_seq (a # as) = w_then a (w_seq as)"

definition write_string :: "string \<Rightarrow> writer" where
  "write_string s =
     w_then (write_integer (int (length s)))
       (if list_all is_ascii_char s then Inr (map byte_of_char s) else Inl UnicodeEncodeError)"

subsection \<open>Texture\<close>

record Texture =
  layer_ID :: int
  filename :: string

text \<open>\<^verbatim>\<open>Texture()\<close>: the constructor's defaults.\<close>

definition Texture_init :: Texture where
  "Texture_init = \<lparr>layer_ID = 1, filename = ''''\<rparr>"

definition Texture_parse :: "Texture \<Rightarrow> byte list \<Rightarrow> Texture reader" where
  "Texture_parse self file =
     and_then (read_byte file ''texture layer ID'') (\<lambda>l file.
       if l = 0 then Inr (self\<lparr>layer_ID := l, filename := ''''\<rparr>, file)
       else and_then (read_string file ''texture_filename'') (\<lambda>s file.
         Inr (self\<lparr>layer_ID := l, filename := s\<rparr>, file)))"

definition Texture_write :: "Texture \<Rightarrow> writer" where
  "Texture_write self =
     (if layer_ID self = 0 then write_byte 0
      else w_seq [write_byte (layer_ID self), write_string (filename self)])"

subsection \<open>Coordinate3, UV, Scale\<close>

record Coordinate3 =
  x :: f32
  y :: f32
  z :: f32

definition Coordinate3_init :: Coordinate3 where
  "Coordinate3_init = \<lparr>x = 0, y = 0, z = 0\<rparr>"

text \<open>
  \<^verbatim>\<open>set_pos(x=read_float(..), z=read_float(..), y=read_float(..))\<close>: the keyword
  arguments are evaluated in the order written, so the stream holds x, then z, then y.
\<close>

definition Coordinate3_parse :: "Coordinate3 \<Rightarrow> byte list \<Rightarrow> Coordinate3 reader" where
  "Coordinate3_parse self file =
     and_then (read_float file ''x-position'') (\<lambda>vx file.
     and_then (read_float file ''z-position'') (\<lambda>vz file.
     and_then (read_float file ''y-position'') (\<lambda>vy file.
       Inr (self\<lparr>x := vx, y := vy, z := vz\<rparr>, file))))"

definition Coordinate3_write :: "Coordinate3 \<Rightarrow> writer" where
  "Coordinate3_write self = w_seq [write_float (x self), write_float (z self), write_float (y self)]"

record UV =
  u :: f32
  v :: f32

definition UV_init :: UV where
  "UV_init = \<lparr>u = 0, v = 0\<rparr>"

definition UV_parse :: "UV \<Rightarrow> byte list \<Rightarrow> UV reader" where
  "UV_parse self file =
     and_then (read_float file ''u-position'') (\<lambda>vu file.
     and_then (read_float file ''v-position'') (\<lambda>vv file.
       Inr (self\<lparr>u := vu, v := vv\<rparr>, file)))"

definition UV_write :: "UV \<Rightarrow> writer" where
  "UV_write self = w_seq [write_float (u self), write_float (v self)]"

text \<open>The bit pattern of the single-precision value \<^verbatim>\<open>1.0\<close>.\<close>

definition f32_one :: f32 where
  "f32_one = 0x3F800000"

record Scale =
  x_scale :: f32
  y_scale :: f32
  z_scale :: f32

definition Scale_init :: Scale where
  "Scale_init = \<lparr>x_scale = f32_one, y_scale = f32_one, z_scale = f32_one\<rparr>"

definition Scale_parse :: "Scale \<Rightarrow> byte list \<Rightarrow> Scale reader" where
  "Scale_parse self file =
     and_then (read_float file ''x-scale'') (\<lambda>sx file.
     and_then (read_float file ''y-scale'') (\<lambda>sy file.
     and_then (read_float file ''z-scale'') (\<lambda>sz file.
       Inr (self\<lparr>x_scale := sx, y_scale := sy, z_scale := sz\<rparr>, file))))"

definition Scale_write :: "Scale \<Rightarrow> writer" where
  "Scale_write self =
     w_seq [write_float (x_scale self), write_float (y_scale self), write_float (z_scale self)]"

subsection \<open>Python's \<^verbatim>\<open>str.split()\<close>, \<^verbatim>\<open>int()\<close>, \<^verbatim>\<open>str()\<close> and \<^verbatim>\<open>round()\<close>\<close>

text \<open>
  The characters that \<^verbatim>\<open>str.split()\<close> and \<^verbatim>\<open>int()\<close> treat as white
  space, among the ASCII characters a decoded string can hold: tab, line feed, vertical tab,
  form feed, carriage return, the four separators \<^verbatim>\<open>0x1c\<close> to \<^verbatim>\<open>0x1f\<close>, and
  the space.
\<close>

definition is_space :: "char \<Rightarrow> bool" where
  "is_space c \<longleftrightarrow> (of_char c :: nat) \<in> {9, 10, 11, 12, 13, 28, 29, 30, 31, 32}"

text \<open>\<^verbatim>\<open>s.split()\<close>: the maximal runs of characters that are not white space.\<close>

fun split_from :: "string \<Rightarrow> string \<Rightarrow> string list" where
  "split_from cur [] = (if cur = [] then [] else [cur])"
| "split_from cur (c # cs) =
     (if is_space c then (if cur = [] then split_from [] cs else cur # split_from [] cs)
      else split_from (cur @ [c]) cs)"

definition py_split :: "string \<Rightarrow> string list" where
  "py_split s = split_from [] s"

definition is_digit :: "char \<Rightarrow> bool" where
  "is_digit c \<longleftrightarrow> 48 \<le> (of_char c :: nat) \<and> (of_char c :: nat) \<le> 57"

definition digit_value :: "char \<Rightarrow> nat" where
  "digit_value c = of_char c - 48"

definition digit_char :: "nat \<Rightarrow> char" where
  "digit_char n = char_of (48 + n)"

text \<open>
  The digits of a base-10 literal accepted by \<^verbatim>\<open>int()\<close>: at least one digit, with
  single underscores allowed between digits. The flag tells whether the previous character
  was a digit.
\<close>

fun parse_digits :: "nat \<Rightarrow> bool \<Rightarrow> string \<Rightarrow> nat option" where
  "parse_digits acc prev [] = (if prev then Some acc else None)"
| "parse_digits acc prev (c # cs) =
     (if is_digit c then parse_digits (10 * acc + digit_value c) True cs
      else if c = CHR ''_'' \<and> prev then
        (case cs of
           [] \<Rightarrow> None
         | d # _ \<Rightarrow> if is_digit d then parse_digits acc False cs else None)
      else None)"

definition py_strip :: "string \<Rightarrow> string" where
  "py_strip s = rev (dropWhile is_space (rev (dropWhile is_space s)))"

definition int_message :: "string \<Rightarrow> string" where
  "int_message s = ''invalid literal for int() with base 10: '' @ s"

text \<open>
  \<^verbatim>\<open>int(s)\<close> for a string: surrounding white space is dropped, then an optional sign
  and the digits follow. (The limit on the number of digits that later interpreters put on
  this conversion and on \<^verbatim>\<open>str(int)\<close> is not part of the model.)
\<close>

definition py_int :: "string \<Rightarrow> error + int" where
  "py_int s =
     (case py_strip s of
        [] \<Rightarrow> Inl (ValueError (int_message s))
      | c # cs \<Rightarrow>
          if c = CHR ''-'' then
            (case parse_digits 0 False cs of
               None \<Rightarrow> Inl (ValueError (int_message s))
             | Some n \<Rightarrow> Inr (- int n))
          else if c = CHR ''+'' then
            (case parse_digits 0 False cs of
               None \<Rightarrow> Inl (ValueError (int_message s))
             | Some n \<Rightarrow> Inr (int n))
          else
            (case parse_digits 0 False (c # cs) of
               None \<Rightarrow> Inl (ValueError (int_message s))
             | Some n \<Rightarrow> Inr (int n)))"

text \<open>\<^verbatim>\<open>map(int, tokens)\<close>, consumed from left to right by the argument unpacking.\<close>

fun map_int :: "string list \<Rightarrow> error + int list" where
  "map_int [] = Inr []"
| "map_int (t # ts) =
     (case py_int t of
        Inl e \<Rightarrow> Inl e
      | Inr i \<Rightarrow> (case map_int ts of Inl e \<Rightarrow> Inl e | Inr is \<Rightarrow> Inr (i # is)))"

fun str_nat :: "nat \<Rightarrow> string" where
  "str_nat n = (if n < 10 then [digit_char n] else str_nat (n div 10) @ [digit_char (n mod 10)])"

declare str_nat.simps [simp del]

text \<open>\<^verbatim>\<open>str(i)\<close>, which is also how an f-string formats an \<^verbatim>\<open>int\<close>.\<close>

definition py_str :: "int \<Rightarrow> string" where
  "py_str i = (if i < 0 then CHR ''-'' # str_nat (nat (- i)) else str_nat (nat i))"

text \<open>
  The fields of an \<^verbatim>\<open>Angle\<close> are annotated as floats, but
  \<^verbatim>\<open>parse_as_string\<close> stores the results of \<^verbatim>\<open>int()\<close> in them: an angle
  field holds either kind of number.
\<close>

datatype pynum = PyInt int | PyFloat f32

definition f32_negative :: "f32 \<Rightarrow> bool" where
  "f32_negative w \<longleftrightarrow> unat w div 2147483648 = 1"

definition f32_exponent :: "f32 \<Rightarrow> nat" where
  "f32_exponent w = unat w div 8388608 mod 256"

definition f32_mantissa :: "f32 \<Rightarrow> nat" where
  "f32_mantissa w = unat w mod 8388608"

definition f32_finite :: "f32 \<Rightarrow> bool" where
  "f32_finite w \<longleftrightarrow> f32_exponent w \<noteq> 255"

text \<open>The number that a finite single-precision bit pattern denotes.\<close>

definition f32_magnitude :: "f32 \<Rightarrow> rat" where
  "f32_magnitude w =
     (if f32_exponent w = 0 then of_nat (f32_mantissa w) / 2 ^ 149
      else if f32_exponent w < 150
      then of_nat (8388608 + f32_mantissa w) / 2 ^ (150 - f32_exponent w)
      else of_nat (8388608 + f32_mantissa w) * 2 ^ (f32_exponent w - 150))"

definition f32_value :: "f32 \<Rightarrow> rat" where
  "f32_value w = (if f32_negative w then - f32_magnitude w else f32_magnitude w)"

text \<open>Rounding to the nearest integer, a tie going to the even neighbour.\<close>

definition round_half_even :: "rat \<Rightarrow> int" where
  "round_half_even q =
     (let f = \<lfloor>q\<rfloor>; d = q - of_int f
      in if d < 1 / 2 then f else if 1 / 2 < d then f + 1 else if even f then f else f + 1)"

text \<open>
  \<^verbatim>\<open>round(v)\<close> with one argument: an \<^verbatim>\<open>int\<close> is returned as it is, a float
  is rounded half to even, and an infinity or a NaN raises.
\<close>

definition py_round :: "pynum \<Rightarrow> error + int" where
  "py_round n =
     (case n of
        PyInt i \<Rightarrow> Inr i
      | PyFloat w \<Rightarrow>
          if f32_finite w then Inr (round_half_even (f32_value w))
          else if f32_mantissa w = 0 then Inl OverflowError
          else Inl (ValueError ''cannot convert float NaN to integer''))"

text \<open>
  \<^verbatim>\<open>struct.pack('<f', v)\<close> for an \<^verbatim>\<open>int\<close>: the integer is first converted to
  a double and then to single precision, each time rounding to the nearest value with ties
  to even; a result out of range raises \<^verbatim>\<open>OverflowError\<close>.
\<close>

fun bit_length :: "nat \<Rightarrow> nat" where
  "bit_length n = (if n = 0 then 0 else Suc (bit_length (n div 2)))"

declare bit_length.simps [simp del]

definition round_to_bits :: "nat \<Rightarrow> nat \<Rightarrow> nat" where
  "round_to_bits p n =
     (if bit_length n \<le> p then n
      else let sh = bit_length n - p; q = n div 2 ^ sh; r = n mod 2 ^ sh; half = 2 ^ (sh - 1)
           in (if half < r \<or> (r = half \<and> odd q) then q + 1 else q) * 2 ^ sh)"

definition f32_of_nat :: "nat \<Rightarrow> nat" where
  "f32_of_nat n =
     (if n = 0 then 0
      else let k = bit_length n - 1
           in (k + 127) * 8388608 + (if k \<le> 23 then n * 2 ^ (23 - k) else n div 2 ^ (k - 23)) - 8388608)"

definition f32_of_int :: "int \<Rightarrow> error + f32" where
  "f32_of_int i =
     (let d = round_to_bits 53 (nat \<bar>i\<bar>) in
      if 2 ^ 1024 \<le> d then Inl OverflowError
      else let s = round_to_bits 24 d in
        if 2 ^ 128 \<le> s then Inl OverflowError
        else Inr (word_of_nat ((if i < 0 then 2147483648 else 0) + f32_of_nat s)))"

definition write_number :: "pynum \<Rightarrow> writer" where
  "write_number n =
     (case n of
        PyFloat w \<Rightarrow> write_float w
      | PyInt i \<Rightarrow> (case f32_of_int i of Inl e \<Rightarrow> Inl e | Inr w \<Rightarrow> write_float w))"

subsection \<open>Color\<close>

record Color =
  r :: int
  g :: int
  b :: int

definition Color_init :: Color where
  "Color_init = \<lparr>r = 0, g = 0, b = 0\<rparr>"

definition Color_parse_as_bytes :: "Color \<Rightarrow> byte list \<Rightarrow> Color reader" where
  "Color_parse_as_bytes self file =
     and_then (read_byte file ''red value'') (\<lambda>vr file.
     and_then (read_byte file ''green value'') (\<lambda>vg file.
     and_then (read_byte file ''blue value'') (\<lambda>vb file.
       Inr (self\<lparr>r := vr, g := vg, b := vb\<rparr>, file))))"

text \<open>
  \<^verbatim>\<open>self.set_rgb(*map(int, color_string.split()))\<close>: every token is converted, then
  \<^verbatim>\<open>set_rgb\<close> is called with as many arguments as there are tokens; it takes
  exactly three, and any other number raises \<^verbatim>\<open>TypeError\<close>.
\<close>

definition Color_parse_as_string :: "Color \<Rightarrow> byte list \<Rightarrow> Color reader" where
  "Color_parse_as_string self file =
     and_then (read_string file ''color string'') (\<lambda>color_string file.
       case map_int (py_split color_string) of
         Inl e \<Rightarrow> Inl e
       | Inr [vr, vg, vb] \<Rightarrow> Inr (self\<lparr>r := vr, g := vg, b := vb\<rparr>, file)
       | Inr _ \<Rightarrow> Inl TypeError)"

definition Color_write_as_bytes :: "Color \<Rightarrow> writer" where
  "Color_write_as_bytes self = w_seq [write_byte (r self), write_byte (g self), write_byte (b self)]"

definition Color_write_as_string :: "Color \<Rightarrow> writer" where
  "Color_write_as_string self =
     write_string (py_str (r self) @ '' '' @ py_str (g self) @ '' '' @ py_str (b self))"

subsection \<open>Angle\<close>

record Angle =
  pitch :: pynum
  yaw :: pynum
  roll :: pynum

definition Angle_init :: Angle where
  "Angle_init = \<lparr>pitch = PyFloat 0, yaw = PyFloat 0, roll = PyFloat 0\<rparr>"

definition Angle_parse_as_bytes :: "Angle \<Rightarrow> byte list \<Rightarrow> Angle reader" where
  "Angle_parse_as_bytes self file =
     and_then (read_float file ''pitch value'') (\<lambda>vp file.
     and_then (read_float file ''yaw value'') (\<lambda>vy file.
     and_then (read_float file ''roll value'') (\<lambda>vr file.
       Inr (self\<lparr>pitch := PyFloat vp, yaw := PyFloat vy, roll := PyFloat vr\<rparr>, file))))"

definition Angle_parse_as_string :: "Angle \<Rightarrow> byte list \<Rightarrow> Angle reader" where
  "Angle_parse_as_string self file =
     and_then (read_string file ''angle string'') (\<lambda>angle_string file.
       case map_int (py_split angle_string) of
         Inl e \<Rightarrow> Inl e
       | Inr [vp, vy, vr] \<Rightarrow> Inr (self\<lparr>pitch := PyInt vp, yaw := PyInt vy, roll := PyInt vr\<rparr>, file)
       | Inr _ \<Rightarrow> Inl TypeError)"

definition Angle_write_as_bytes :: "Angle \<Rightarrow> writer" where
  "Angle_write_as_bytes self =
     w_seq [write_number (pitch self), write_number (yaw self), write_number (roll self)]"

text \<open>
  The f-string evaluates \<^verbatim>\<open>round(self.pitch)\<close>, \<^verbatim>\<open>round(self.yaw)\<close> and
  \<^verbatim>\<open>round(self.roll)\<close> in this order before anything is written.
\<close>

definition Angle_write_as_string :: "Angle \<Rightarrow> writer" where
  "Angle_write_as_string self =
     (case py_round (pitch self) of
        Inl e \<Rightarrow> Inl e
      | Inr p \<Rightarrow>
     (case py_round (yaw self) of
        Inl e \<Rightarrow> Inl e
      | Inr w \<Rightarrow>
     (case py_round (roll self) of
        Inl e \<Rightarrow> Inl e
      | Inr l \<Rightarrow> write_string (py_str p @ '' '' @ py_str w @ '' '' @ py_str l))))"

subsection \<open>Repetition\<close>

text \<open>
  Every list section is read by a loop
  \<^verbatim>\<open>for _ in range(count): item = T(); item.parse(file); self.items.append(item)\<close>.
  The loop appends to the list it is given; when an item fails, the items appended so far
  stay in the list and the exception leaves the loop.
\<close>

fun parse_each ::
  "nat \<Rightarrow> (byte list \<Rightarrow> 'a reader) \<Rightarrow> 'a list \<Rightarrow> byte list \<Rightarrow> 'a list \<times> (error + byte list)" where
  "parse_each 0 p items file = (items, Inr file)"
| "parse_each (Suc n) p items file =
     (case p file of
        Inl e \<Rightarrow> (items, Inl e)
      | Inr (item, rest) \<Rightarrow> parse_each n p (items @ [item]) rest)"

text \<open>A method that fills a freshly made object: a failure discards the object.\<close>

definition each :: "'a list \<times> (error + byte list) \<Rightarrow> 'a list reader" where
  "each res = (case res of (items, Inl e) \<Rightarrow> Inl e | (items, Inr file) \<Rightarrow> Inr (items, file))"

text \<open>\<^verbatim>\<open>for item in items: item.write(file)\<close>.\<close>

definition write_each :: "('a \<Rightarrow> writer) \<Rightarrow> 'a list \<Rightarrow> writer" where
  "write_each w items = w_seq (map w items)"

subsection \<open>Vertex and Triangle\<close>

record Vertex =
  pos :: Coordinate3
  uv_1 :: UV
  uv_2 :: UV
  color :: Color

definition Vertex_init :: Vertex where
  "Vertex_init = \<lparr>pos = Coordinate3_init, uv_1 = UV_init, uv_2 = UV_init, color = Color_init\<rparr>"

definition Vertex_parse :: "Vertex \<Rightarrow> byte list \<Rightarrow> Vertex reader" where
  "Vertex_parse self file =
     and_then (Coordinate3_parse (pos self) file) (\<lambda>p file.
     and_then (UV_parse (uv_1 self) file) (\<lambda>t1 file.
     and_then (UV_parse (uv_2 self) file) (\<lambda>t2 file.
     and_then (Color_parse_as_bytes (color self) file) (\<lambda>c file.
       Inr (self\<lparr>pos := p, uv_1 := t1, uv_2 := t2, color := c\<rparr>, file)))))"

definition Vertex_write :: "Vertex \<Rightarrow> writer" where
  "Vertex_write self =
     w_seq [Coordinate3_write (pos self), UV_write (uv_1 self), UV_write (uv_2 self),
            Color_write_as_bytes (color self)]"

record Triangle =
  index_1 :: int
  index_2 :: int
  index_3 :: int

definition Triangle_init :: Triangle where
  "Triangle_init = \<lparr>index_1 = 0, index_2 = 0, index_3 = 0\<rparr>"

definition Triangle_parse :: "Triangle \<Rightarrow> byte list \<Rightarrow> Triangle reader" where
  "Triangle_parse self file =
     and_then (read_integer file ''triangle index 1'') (\<lambda>i1 file.
     and_then (read_integer file ''triangle index 2'') (\<lambda>i2 file.
     and_then (read_integer file ''triangle index 3'') (\<lambda>i3 file.
       Inr (self\<lparr>index_1 := i1, index_2 := i2, index_3 := i3\<rparr>, file))))"

definition Triangle_write :: "Triangle \<Rightarrow> writer" where
  "Triangle_write self =
     w_seq [write_integer (index_1 self), write_integer (index_2 self), write_integer (index_3 self)]"

subsection \<open>Object\<close>

record Object =
  textures :: "Texture list"
  vertices :: "Vertex list"
  triangles :: "Triangle list"

definition Object_init :: Object where
  "Object_init = \<lparr>textures = [], vertices = [], triangles = []\<rparr>"

definition Object_parse :: "Object \<Rightarrow> byte list \<Rightarrow> Object reader" where
  "Object_parse self file =
     and_then (each (parse_each 2 (Texture_parse Texture_init) (textures self) file)) (\<lambda>ts file.
     and_then (read_integer file ''object vertex count'') (\<lambda>vertex_count file.
     and_then (each (parse_each (nat vertex_count) (Vertex_parse Vertex_init)
                       (vertices self) file)) (\<lambda>vs file.
     and_then (read_integer file ''object triangle count'') (\<lambda>triangle_count file.
     and_then (each (parse_each (nat triangle_count) (Triangle_parse Triangle_init)
                       (triangles self) file)) (\<lambda>tris file.
       Inr (self\<lparr>textures := ts, vertices := vs, triangles := tris\<rparr>, file))))))"

text \<open>
  \<^verbatim>\<open>while len(self.textures) < 2: self.textures.insert(0, Texture())\<close>: the list
  of the object itself is changed, before anything is written.
\<close>

function ensure_textures :: "Texture list \<Rightarrow> Texture list" where
  "ensure_textures ts = (if length ts < 2 then ensure_textures (Texture_init # ts) else ts)"
  by pat_completeness auto
termination
  by (relation "measure (\<lambda>ts. 2 - length ts)") auto

declare ensure_textures.simps [simp del]

text \<open>The method returns the object as the call leaves it, and what it emits.\<close>

definition Object_write :: "Object \<Rightarrow> Object \<times> writer" where
  "Object_write self =
     (let self = self\<lparr>textures := ensure_textures (textures self)\<rparr>
      in (self,
          w_seq [write_each Texture_write (textures self),
                 write_integer (int (length (vertices self))),
                 write_each Vertex_write (vertices self),
                 write_integer (int (length (triangles self))),
                 write_each Triangle_write (triangles self)]))"

subsection \<open>Collision and TriggerBox\<close>

record Collision =
  vertices :: "Coordinate3 list"
  triangles :: "Triangle list"

definition Collision_init :: Collision where
  "Collision_init = \<lparr>vertices = [], triangles = []\<rparr>"

definition Collision_parse :: "Collision \<Rightarrow> byte list \<Rightarrow> Collision reader" where
  "Collision_parse self file =
     and_then (read_integer file ''collision vertex count'') (\<lambda>vertex_count file.
     and_then (each (parse_each (nat vertex_count) (Coordinate3_parse Coordinate3_init)
                       (Collision.vertices self) file)) (\<lambda>vs file.
     and_then (read_integer file ''collision triangle count'') (\<lambda>triangle_count file.
     and_then (each (parse_each (nat triangle_count) (Triangle_parse Triangle_init)
                       (Collision.triangles self) file)) (\<lambda>tris file.
       Inr (self\<lparr>Collision.vertices := vs, Collision.triangles := tris\<rparr>, file)))))"

definition Collision_write :: "Collision \<Rightarrow> writer" where
  "Collision_write self =
     w_seq [write_integer (int (length (Collision.vertices self))),
            write_each Coordinate3_write (Collision.vertices self),
            write_integer (int (length (Collision.triangles self))),
            write_each Triangle_write (Collision.triangles self)]"

record TriggerBox =
  collisions :: "Collision list"
  name :: string

definition TriggerBox_init :: TriggerBox where
  "TriggerBox_init = \<lparr>collisions = [], name = ''''\<rparr>"

definition TriggerBox_parse :: "TriggerBox \<Rightarrow> byte list \<Rightarrow> TriggerBox reader" where
  "TriggerBox_parse self file =
     and_then (read_integer file ''trigger box collision count'') (\<lambda>collision_count file.
     and_then (each (parse_each (nat collision_count) (Collision_parse Collision_init)
                       (TriggerBox.collisions self) file)) (\<lambda>cs file.
     and_then (read_string file ''trigger box name'') (\<lambda>s file.
       Inr (self\<lparr>TriggerBox.collisions := cs, name := s\<rparr>, file))))"

definition TriggerBox_write :: "TriggerBox \<Rightarrow> writer" where
  "TriggerBox_write self =
     w_seq [write_integer (int (length (TriggerBox.collisions self))),
            write_each Collision_write (TriggerBox.collisions self),
            write_string (name self)]"

subsection \<open>Points\<close>

text \<open>
  The seven subclasses of \<^verbatim>\<open>Point\<close>, each with the attributes its constructor
  defines, in the order given in the comments. The \<^verbatim>\<open>classname\<close> attribute is the
  literal that the subclass passes to the base constructor.
\<close>

datatype Point =
    Screen Coordinate3 string  \<comment> \<open>pos, path\<close>
  | Waypoint Coordinate3  \<comment> \<open>pos\<close>
  | Light Coordinate3 f32 Color f32  \<comment> \<open>pos, range, color, intensity\<close>
  | Spotlight Coordinate3 f32 Color f32 Angle int int
      \<comment> \<open>pos, range, color, intensity, angle, inner angle, outer angle\<close>
  | SoundEmitter Coordinate3 int f32  \<comment> \<open>pos, sound, range\<close>
  | PlayerStart Coordinate3 Angle  \<comment> \<open>pos, angle\<close>
  | Model string Coordinate3 Angle Scale  \<comment> \<open>path, pos, angle, scale\<close>

fun classname :: "Point \<Rightarrow> string" where
  "classname (Screen _ _) = ''screen''"
| "classname (Waypoint _) = ''waypoint''"
| "classname (Light _ _ _ _) = ''light''"
| "classname (Spotlight _ _ _ _ _ _ _) = ''spotlight''"
| "classname (SoundEmitter _ _ _) = ''soundemitter''"
| "classname (PlayerStart _ _) = ''playerstart''"
| "classname (Model _ _ _ _) = ''model''"

definition Screen_init :: Point where
  "Screen_init = Screen Coordinate3_init ''''"

definition Waypoint_init :: Point where
  "Waypoint_init = Waypoint Coordinate3_init"

definition Light_init :: Point where
  "Light_init = Light Coordinate3_init 0 Color_init 0"

definition Spotlight_init :: Point where
  "Spotlight_init = Spotlight Coordinate3_init 0 Color_init 0 Angle_init 0 0"

definition SoundEmitter_init :: Point where
  "SoundEmitter_init = SoundEmitter Coordinate3_init 0 0"

definition PlayerStart_init :: Point where
  "PlayerStart_init = PlayerStart Coordinate3_init Angle_init"

definition Model_init :: Point where
  "Model_init = Model '''' Coordinate3_init Angle_init Scale_init"

fun Point_parse :: "Point \<Rightarrow> byte list \<Rightarrow> Point reader" where
  "Point_parse (Screen p path) file =
     and_then (Coordinate3_parse p file) (\<lambda>p file.
     and_then (read_string file ''screen image path'') (\<lambda>path file.
       Inr (Screen p path, file)))"
| "Point_parse (Waypoint p) file =
     and_then (Coordinate3_parse p file) (\<lambda>p file.
       Inr (Waypoint p, file))"
| "Point_parse (Light p rng c intensity) file =
     and_then (Coordinate3_parse p file) (\<lambda>p file.
     and_then (read_float file ''light range'') (\<lambda>rng file.
     and_then (Color_parse_as_string c file) (\<lambda>c file.
     and_then (read_float file ''light intensity'') (\<lambda>intensity file.
       Inr (Light p rng c intensity, file)))))"
| "Point_parse (Spotlight p rng c intensity a inner outer) file =
     and_then (Coordinate3_parse p file) (\<lambda>p file.
     and_then (read_float file ''spotlight range'') (\<lambda>rng file.
     and_then (Color_parse_as_string c file) (\<lambda>c file.
     and_then (read_float file ''spotlight intensity'') (\<lambda>intensity file.
     and_then (Angle_parse_as_string a file) (\<lambda>a file.
     and_then (read_integer file ''spotlight inner angle'') (\<lambda>inner file.
     and_then (read_integer file ''spotlight outer angle'') (\<lambda>outer file.
       Inr (Spotlight p rng c intensity a inner outer, file))))))))"
| "Point_parse (SoundEmitter p sound rng) file =
     and_then (Coordinate3_parse p file) (\<lambda>p file.
     and_then (read_integer file ''sound emitter sound'') (\<lambda>sound file.
     and_then (read_float file ''sound emitter range'') (\<lambda>rng file.
       Inr (SoundEmitter p sound rng, file))))"
| "Point_parse (PlayerStart p a) file =
     and_then (Coordinate3_parse p file) (\<lambda>p file.
     and_then (Angle_parse_as_string a file) (\<lambda>a file.
       Inr (PlayerStart p a, file)))"
| "Point_parse (Model path p a s) file =
     and_then (read_string file ''model path'') (\<lambda>path file.
     and_then (Coordinate3_parse p file) (\<lambda>p file.
     and_then (Angle_parse_as_bytes a file) (\<lambda>a file.
     and_then (Scale_parse s file) (\<lambda>s file.
       Inr (Model path p a s, file)))))"

fun Point_write :: "Point \<Rightarrow> writer" where
  "Point_write (Screen p path) =
     w_seq [write_string (classname (Screen p path)), Coordinate3_write p, write_string path]"
| "Point_write (Waypoint p) =
     w_seq [write_string (classname (Waypoint p)), Coordinate3_write p]"
| "Point_write (Light p rng c intensity) =
     w_seq [write_string (classname (Light p rng c intensity)), Coordinate3_write p,
            write_float rng, Color_write_as_string c, write_float intensity]"
| "Point_write (Spotlight p rng c intensity a inner outer) =
     w_seq [write_string (classname (Spotlight p rng c intensity a inner outer)),
            Coordinate3_write p, write_float rng, Color_write_as_string c,
            write_float intensity, Angle_write_as_string a,
            write_integer inner, write_integer outer]"
| "Point_write (SoundEmitter p sound rng) =
     w_seq [write_string (classname (SoundEmitter p sound rng)), Coordinate3_write p,
            write_integer sound, write_float rng]"
| "Point_write (PlayerStart p a) =
     w_seq [write_string (classname (PlayerStart p a)), Coordinate3_write p,
            Angle_write_as_string a]"
| "Point_write (Model path p a s) =
     w_seq [write_string (classname (Model path p a s)), write_string path,
            Coordinate3_write p, Angle_write_as_bytes a, Scale_write s]"

subsection \<open>RoomMesh\<close>

record RoomMesh =
  signature :: string
  objects :: "Object list"
  collisions :: "Collision list"
  triggers :: "TriggerBox list"
  points :: "Point list"

definition RoomMesh_init :: RoomMesh where
  "RoomMesh_init = \<lparr>signature = '''', objects = [], collisions = [], triggers = [], points = []\<rparr>"

text \<open>
  \<^verbatim>\<open>RoomMesh.parse\<close> works on the instance it is called on, and an exception leaves
  the instance as the statements before it have made it. A section of the method therefore
  returns the instance together with either the exception or the rest of the stream.
\<close>

type_synonym parse_state = "RoomMesh \<times> (error + byte list)"

definition next_section :: "parse_state \<Rightarrow> (RoomMesh \<Rightarrow> byte list \<Rightarrow> parse_state) \<Rightarrow> parse_state" where
  "next_section res f = (case res of (self, Inl e) \<Rightarrow> (self, Inl e) | (self, Inr file) \<Rightarrow> f self file)"

definition signature_message :: "string \<Rightarrow> string" where
  "signature_message s = ''Unexpected signature string: '' @ s @ ''.''"

definition parse_signature :: "RoomMesh \<Rightarrow> byte list \<Rightarrow> parse_state" where
  "parse_signature self file =
     (case read_string file ''file signature'' of
        Inl e \<Rightarrow> (self, Inl e)
      | Inr (s, rest) \<Rightarrow>
          (let self = self\<lparr>signature := s\<rparr>
           in if signature self \<noteq> ''RoomMesh'' \<and> signature self \<noteq> ''RoomMesh.HasTriggerBox''
              then (self, Inl (ValueError (signature_message (signature self))))
              else (self, Inr rest)))"

definition parse_objects :: "RoomMesh \<Rightarrow> byte list \<Rightarrow> parse_state" where
  "parse_objects self file =
     (case read_integer file ''object count'' of
        Inl e \<Rightarrow> (self, Inl e)
      | Inr (object_count, rest) \<Rightarrow>
          (case parse_each (nat object_count) (Object_parse Object_init) (objects self) rest of
             (items, res) \<Rightarrow> (self\<lparr>objects := items\<rparr>, res)))"

definition parse_collisions :: "RoomMesh \<Rightarrow> byte list \<Rightarrow> parse_state" where
  "parse_collisions self file =
     (case read_integer file ''collision count'' of
        Inl e \<Rightarrow> (self, Inl e)
      | Inr (collision_count, rest) \<Rightarrow>
          (case parse_each (nat collision_count) (Collision_parse Collision_init)
                  (collisions self) rest of
             (items, res) \<Rightarrow> (self\<lparr>collisions := items\<rparr>, res)))"

definition parse_triggers :: "RoomMesh \<Rightarrow> byte list \<Rightarrow> parse_state" where
  "parse_triggers self file =
     (if signature self = ''RoomMesh.HasTriggerBox'' then
        (case read_integer file ''trigger count'' of
           Inl e \<Rightarrow> (self, Inl e)
         | Inr (trigger_count, rest) \<Rightarrow>
             (case parse_each (nat trigger_count) (TriggerBox_parse TriggerBox_init)
                     (triggers self) rest of
                (items, res) \<Rightarrow> (self\<lparr>triggers := items\<rparr>, res)))
      else (self, Inr file))"

text \<open>
  One round of the point loop: the classname is read and matched against the seven
  literals of the \<^verbatim>\<open>match\<close> statement, which has no default case.
\<close>

definition parse_point :: "Point list \<Rightarrow> byte list \<Rightarrow> Point list reader" where
  "parse_point pts file =
     and_then (read_string file ''point classname'') (\<lambda>cn file.
       if cn = ''screen'' then
         and_then (Point_parse Screen_init file) (\<lambda>pt file. Inr (pts @ [pt], file))
       else if cn = ''waypoint'' then
         and_then (Point_parse Waypoint_init file) (\<lambda>pt file. Inr (pts @ [pt], file))
       else if cn = ''light'' then
         and_then (Point_parse Light_init file) (\<lambda>pt file. Inr (pts @ [pt], file))
       else if cn = ''spotlight'' then
         and_then (Point_parse Spotlight_init file) (\<lambda>pt file. Inr (pts @ [pt], file))
       else if cn = ''soundemitter'' then
         and_then (Point_parse SoundEmitter_init file) (\<lambda>pt file. Inr (pts @ [pt], file))
       else if cn = ''playerstart'' then
         and_then (Point_parse PlayerStart_init file) (\<lambda>pt file. Inr (pts @ [pt], file))
       else if cn = ''model'' then
         and_then (Point_parse Model_init file) (\<lambda>pt file. Inr (pts @ [pt], file))
       else Inr (pts, file))"

fun parse_point_loop :: "nat \<Rightarrow> Point list \<Rightarrow> byte list \<Rightarrow> Point list \<times> (error + byte list)" where
  "parse_point_loop 0 pts file = (pts, Inr file)"
| "parse_point_loop (Suc n) pts file =
     (case parse_point pts file of
        Inl e \<Rightarrow> (pts, Inl e)
      | Inr (pts', rest) \<Rightarrow> parse_point_loop n pts' rest)"

definition parse_points :: "RoomMesh \<Rightarrow> byte list \<Rightarrow> parse_state" where
  "parse_points self file =
     (case read_integer file ''point count'' of
        Inl e \<Rightarrow> (self, Inl e)
      | Inr (point_count, rest) \<Rightarrow>
          (case parse_point_loop (nat point_count) (points self) rest of
             (items, res) \<Rightarrow> (self\<lparr>points := items\<rparr>, res)))"

definition RoomMesh_parse :: "RoomMesh \<Rightarrow> byte list \<Rightarrow> parse_state" where
  "RoomMesh_parse self file =
     next_section (next_section (next_section (next_section
       (parse_signature self file) parse_objects) parse_collisions) parse_triggers) parse_points"

text \<open>
  \<^verbatim>\<open>for mesh in self.objects: mesh.write(file)\<close>: every object visited has its
  texture list completed, also when a later write fails.
\<close>

fun write_objects :: "Object list \<Rightarrow> Object list \<times> writer" where
  "write_objects [] = ([], Inr [])"
| "write_objects (mesh # rest) =
     (case Object_write mesh of
        (mesh', Inl e) \<Rightarrow> (mesh' # rest, Inl e)
      | (mesh', Inr out) \<Rightarrow>
          (case write_objects rest of (rest', w) \<Rightarrow> (mesh' # rest', w_then (Inr out) w)))"

definition write_triggers :: "RoomMesh \<Rightarrow> writer" where
  "write_triggers self =
     (if 0 < length (triggers self) then
        w_seq [write_integer (int (length (triggers self))),
               write_each TriggerBox_write (triggers self)]
      else Inr [])"

definition RoomMesh_write :: "RoomMesh \<Rightarrow> RoomMesh \<times> writer" where
  "RoomMesh_write self =
     (case w_seq [write_string (signature self), write_integer (int (length (objects self)))] of
        Inl e \<Rightarrow> (self, Inl e)
      | Inr head \<Rightarrow>
          (case write_objects (objects self) of
             (meshes, w) \<Rightarrow>
               (self\<lparr>objects := meshes\<rparr>,
                w_seq [Inr head, w,
                       write_integer (int (length (collisions self))),
                       write_each Collision_write (collisions self),
                       write_triggers self,
                       write_integer (int (length (points self))),
                       write_each Point_write (points self),
                       write_string ''EOF''])))"

section \<open>Properties\<close>

subsection \<open>Sequencing and the little-endian encoding\<close>

lemma and_then_Inr [simp]: "and_then (Inr (a, rest)) f = f a rest"
  by (simp add: and_then_def)

lemma and_then_Inl [simp]: "and_then (Inl e) f = Inl e"
  by (simp add: and_then_def)

lemma w_then_Inr [simp]: "w_then (Inr xs) (Inr ys) = Inr (xs @ ys)"
  by (simp add: w_then_def)

lemma w_then_Inl [simp]: "w_then (Inl e) w = Inl e"
  by (simp add: w_then_def)

lemma w_then_Inr_Inl [simp]: "w_then (Inr xs) (Inl e) = Inl e"
  by (simp add: w_then_def)

lemma w_then_Nil [simp]: "w_then w (Inr []) = w"
  by (cases w) (simp_all add: w_then_def)

lemma w_then_Nil_left [simp]: "w_then (Inr []) w = w"
  by (cases w) (simp_all add: w_then_def)

lemma w_then_assoc: "w_then (w_then a c) d = w_then a (w_then c d)"
  by (cases a; cases c; cases d) (simp_all add: w_then_def)

lemma w_seq_append: "w_seq (as @ cs) = w_then (w_seq as) (w_seq cs)"
  by (induction as) (simp_all add: w_then_assoc)

lemma unat_byte_less: "unat (c :: byte) < 256"
  using unsigned_less [of c] by simp

lemma unat_byte_of_nat: "n < 256 \<Longrightarrow> unat (word_of_nat n :: byte) = n"
  by (simp add: unat_of_nat)

lemma le32_value_less: "le32_value b0 b1 b2 b3 < 4294967296"
  using unat_byte_less [of b0] unat_byte_less [of b1] unat_byte_less [of b2] unat_byte_less [of b3]
  by (simp add: le32_value_def)

lemma mod_256_step: "a < 256 \<Longrightarrow> (a + 256 * k) mod 256 = (a::nat)"
  by simp

lemma div_256_step: "a < 256 \<Longrightarrow> (a + 256 * k) div 256 = (k::nat)"
  by simp

lemma le_digits:
  fixes a0 a1 a2 a3 :: nat
  assumes lt: "a0 < 256" "a1 < 256" "a2 < 256" "a3 < 256"
  defines "n \<equiv> a0 + 256 * a1 + 65536 * a2 + 16777216 * a3"
  shows "n mod 256 = a0" "n div 256 mod 256 = a1" "n div 65536 mod 256 = a2"
    "n div 16777216 mod 256 = a3"
proof -
  have n: "n = a0 + 256 * (a1 + 256 * (a2 + 256 * a3))"
    by (simp add: n_def)
  have d1: "n div 256 = a1 + 256 * (a2 + 256 * a3)"
    unfolding n using lt(1) by (rule div_256_step)
  have d2: "n div 65536 = a2 + 256 * a3"
  proof -
    have "n div 65536 = n div (256 * 256)" by simp
    also have "\<dots> = n div 256 div 256" by (rule div_mult2_eq)
    also have "\<dots> = a2 + 256 * a3" unfolding d1 using lt(2) by (rule div_256_step)
    finally show ?thesis .
  qed
  have d3: "n div 16777216 = a3"
  proof -
    have "n div 16777216 = n div (65536 * 256)" by simp
    also have "\<dots> = n div 65536 div 256" by (rule div_mult2_eq)
    also have "\<dots> = a3" unfolding d2 using lt(3) by simp
    finally show ?thesis .
  qed
  show "n mod 256 = a0" unfolding n using lt(1) by (rule mod_256_step)
  show "n div 256 mod 256 = a1" unfolding d1 using lt(2) by (rule mod_256_step)
  show "n div 65536 mod 256 = a2" unfolding d2 using lt(3) by (rule mod_256_step)
  show "n div 16777216 mod 256 = a3" unfolding d3 using lt(4) by simp
qed

lemma digits_le:
  fixes n :: nat
  assumes "n < 4294967296"
  shows "n mod 256 + 256 * (n div 256 mod 256) + 65536 * (n div 65536 mod 256)
      + 16777216 * (n div 16777216 mod 256) = n"
proof -
  define q1 q2 q3 where "q1 = n div 256" and "q2 = q1 div 256" and "q3 = q2 div 256"
  have e2: "n div 65536 = q2"
  proof -
    have "n div 65536 = n div (256 * 256)" by simp
    also have "\<dots> = q2" unfolding q2_def q1_def by (rule div_mult2_eq)
    finally show ?thesis .
  qed
  have e3: "n div 16777216 = q3"
  proof -
    have "n div 16777216 = n div (65536 * 256)" by simp
    also have "\<dots> = n div 65536 div 256" by (rule div_mult2_eq)
    finally show ?thesis by (simp add: e2 q3_def)
  qed
  have "q3 < 256"
    unfolding e3 [symmetric] using assms by (simp add: less_mult_imp_div_less)
  then have m3: "q3 mod 256 = q3" by simp
  have s2: "q2 mod 256 + 256 * q3 = q2" unfolding q3_def by (rule mod_mult_div_eq)
  have s1: "q1 mod 256 + 256 * q2 = q1" unfolding q2_def by (rule mod_mult_div_eq)
  have s0: "n mod 256 + 256 * q1 = n" unfolding q1_def by (rule mod_mult_div_eq)
  have "n mod 256 + 256 * (q1 mod 256) + 65536 * (q2 mod 256) + 16777216 * q3
      = n mod 256 + 256 * (q1 mod 256 + 256 * (q2 mod 256 + 256 * q3))"
    by simp
  also have "\<dots> = n" by (simp only: s2 s1 s0)
  finally show ?thesis
    by (simp only: e2 e3 m3 q1_def [symmetric])
qed

lemma le32_le32_value: "le32 (le32_value b0 b1 b2 b3) = [b0, b1, b2, b3]"
  using le_digits [OF unat_byte_less [of b0] unat_byte_less [of b1]
      unat_byte_less [of b2] unat_byte_less [of b3]]
  by (simp add: le32_def le32_value_def)

lemma le32_value_le32:
  assumes "n < 4294967296"
  shows "le32_value (word_of_nat (n mod 256)) (word_of_nat (n div 256 mod 256))
      (word_of_nat (n div 65536 mod 256)) (word_of_nat (n div 16777216 mod 256)) = n"
proof -
  have u0: "unat (word_of_nat (n mod 256) :: byte) = n mod 256"
    by (rule unat_byte_of_nat) simp
  have u1: "unat (word_of_nat (n div 256 mod 256) :: byte) = n div 256 mod 256"
    by (rule unat_byte_of_nat) simp
  have u2: "unat (word_of_nat (n div 65536 mod 256) :: byte) = n div 65536 mod 256"
    by (rule unat_byte_of_nat) simp
  have u3: "unat (word_of_nat (n div 16777216 mod 256) :: byte) = n div 16777216 mod 256"
    by (rule unat_byte_of_nat) simp
  show ?thesis
    unfolding le32_value_def u0 u1 u2 u3 by (rule digits_le [OF assms])
qed

lemma length_le32 [simp]: "length (le32 n) = 4"
  by (simp add: le32_def)

lemma unat_f32_less: "unat (w :: f32) < 4294967296"
  using unsigned_less [of w] by simp

lemma read_float_write_float [simp]:
  "read_float (le32 (unat w) @ rest) context = Inr (w, rest)"
  using le32_value_le32 [OF unat_f32_less [of w]]
  by (simp add: read_float_def le32_def)

lemma read_integer_le32 [simp]:
  "n < 4294967296 \<Longrightarrow> read_integer (le32 n @ rest) context = Inr (int n, rest)"
  using le32_value_le32 [of n]
  by (simp add: read_integer_def le32_def)

lemma read_integer_range:
  "read_integer file context = Inr (n, rest) \<Longrightarrow> 0 \<le> n \<and> n < 4294967296"
  using le32_value_less
  by (auto simp: read_integer_def split: list.splits) 

lemma char_of_byte_of_char [simp]: "char_of_byte (byte_of_char c) = c"
  by (simp add: char_of_byte_def byte_of_char_def unat_of_nat)

lemma byte_of_char_of_byte [simp]: "byte_of_char (char_of_byte c) = c"
  using unat_byte_less [of c] by (simp add: char_of_byte_def byte_of_char_def)

lemma is_ascii_byte_of_char [simp]: "is_ascii_byte (byte_of_char c) = is_ascii_char c"
  by (simp add: is_ascii_byte_def is_ascii_char_def byte_of_char_def unat_of_nat)

lemma is_ascii_char_of_byte [simp]: "is_ascii_char (char_of_byte c) = is_ascii_byte c"
  using unat_byte_less [of c]
  by (simp add: is_ascii_byte_def is_ascii_char_def char_of_byte_def)

subsection \<open>Textures with layer 0\<close>

text \<open>
  Claim C7. A texture whose \<^verbatim>\<open>layer_ID\<close> is 0 is written as the single byte 0,
  whatever its filename is; and parsing a stream whose first byte is 0 consumes that byte
  only and yields the empty filename.
\<close>
theorem Texture_layer_zero:
  "Texture_write \<lparr>layer_ID = 0, filename = s\<rparr> = Inr [0]
   \<and> Texture_parse self (0 # rest) = Inr (\<lparr>layer_ID = 0, filename = ''''\<rparr>, rest)"
  by (simp add: Texture_write_def write_byte_def Texture_parse_def read_byte_def)

subsection \<open>The axis order of positions\<close>



end
